theory Spec2Isabelle
  imports Complex_Main
begin

section \<open>JavaScript values, errors and promises\<close>

text \<open>
  The values the scripts exchange (request bodies, response data, hook arguments) are
  JavaScript values. An object is the list of its own properties; \<open>map_of\<close> reads it.
  Numbers that arrive in JSON are rationals here: the handlers only test them for
  truthiness and hand them on.
\<close>

datatype js =
    JUndefined
  | JNull
  | JBool bool
  | JNum rat
  | JStr string
  | JArr "js list"
  | JObj "(string \<times> js) list"

text \<open>What \<open>if (v)\<close>, \<open>!v\<close>, \<open>v && w\<close> and \<open>v || w\<close> test.\<close>

fun truthy :: "js \<Rightarrow> bool" where
  "truthy JUndefined = False"
| "truthy JNull = False"
| "truthy (JBool b) = b"
| "truthy (JNum n) = (n \<noteq> 0)"
| "truthy (JStr s) = (s \<noteq> [])"
| "truthy (JArr _) = True"
| "truthy (JObj _) = True"

text \<open>
  A thrown value. All three kinds are \<open>Error\<close> objects in the source; \<open>message\<close> is
  their \<open>.message\<close>.
\<close>

datatype js_error = Error string | TypeError string | ReferenceError string

fun message :: "js_error \<Rightarrow> string" where
  "message (Error m) = m"
| "message (TypeError m) = m"
| "message (ReferenceError m) = m"

text \<open>
  A settled promise, and the outcome of a block that may throw: \<open>Inl\<close> is the rejection
  (the thrown error), \<open>Inr\<close> the value it resolves with.
\<close>

type_synonym 'a promise = "js_error + 'a"

definition and_then :: "js_error + 'a \<Rightarrow> ('a \<Rightarrow> js_error + 'b) \<Rightarrow> js_error + 'b" where
  "and_then r f = (case r of Inl e \<Rightarrow> Inl e | Inr v \<Rightarrow> f v)"

text \<open>
  Reading the property \<open>k\<close> of \<open>v\<close> (\<open>v.k\<close>): a TypeError on \<open>undefined\<close> and
  \<open>null\<close> (\<open>cannot_read\<close> is its message in Node), the own property of an object,
  \<open>undefined\<close> where there is none. The keys the source reads this way (\<open>payment_data\<close>, \<open>order_id\<close>, \<open>context\<close>, \<open>amount\<close>,
  \<open>currency\<close>, \<open>redirectUrl\<close>, \<open>code\<close>, \<open>scope\<close>) are not properties of strings,
  numbers, booleans or arrays.
\<close>

definition cannot_read :: "string \<Rightarrow> string \<Rightarrow> string" where
  "cannot_read what k =
     ''Cannot read properties of '' @ what @ '' (reading '' @ [CHR 0x27] @ k @ [CHR 0x27] @ '')''"

fun get_prop :: "js \<Rightarrow> string \<Rightarrow> js_error + js" where
  "get_prop JUndefined k = Inl (TypeError (cannot_read ''undefined'' k))"
| "get_prop JNull k = Inl (TypeError (cannot_read ''null'' k))"
| "get_prop (JObj kvs) k = Inr (case map_of kvs k of None \<Rightarrow> JUndefined | Some v \<Rightarrow> v)"
| "get_prop _ k = Inr JUndefined"

section \<open>The payment methods (custom-payment.js)\<close>

text \<open>
  \<open>this.state\<close> of a payment method (\<open>state_method\<close> is its \<open>method\<close> field).
  \<open>customerId\<close> and \<open>paymentData\<close> start as
  \<open>null\<close> (\<open>None\<close>). The type of the payment data differs between the two classes: the
  text of an input for \<open>CustomPaymentMethod\<close>, a pair of texts for
  \<open>DellPaymentMethod\<close>.
\<close>

record 'p payment_state =
  state_method :: string
  customerId :: "string option"
  paymentData :: "'p option"

record 's payment_method =
  options :: js
  state :: 's

record CustomPaymentMethod = "(string payment_state) payment_method" +
  clientId :: string

text \<open>\<open>new CustomPaymentMethod(options)\<close>; \<open>options || {}\<close> keeps a truthy argument.\<close>

definition new_CustomPaymentMethod :: "js \<Rightarrow> CustomPaymentMethod" where
  "new_CustomPaymentMethod opts =
     \<lparr> options = (if truthy opts then opts else JObj []),
       state = \<lparr> state_method = ''custom-payment'', customerId = None, paymentData = None \<rparr>,
       clientId = ''YOUR_APP_CLIENT_ID'' \<rparr>"

text \<open>
  The click listener that \<open>initializePayment\<close> installs on the submit button: it stores
  the text of the \<open>#payment-details\<close> input. It is the only assignment to
  \<open>state.paymentData\<close> after the constructor.
\<close>

definition CustomPaymentMethod_onSubmitClick :: "string \<Rightarrow> CustomPaymentMethod \<Rightarrow> CustomPaymentMethod" where
  "CustomPaymentMethod_onSubmitClick details pm =
     pm \<lparr> state := (state pm) \<lparr> paymentData := Some details \<rparr> \<rparr>"

text \<open>
  \<open>initializePayment\<close>: rejects when the page has no \<open>#checkout-payment-container\<close>,
  otherwise resolves with the method type and the state.
\<close>

definition CustomPaymentMethod_initializePayment ::
  "bool \<Rightarrow> CustomPaymentMethod \<Rightarrow> (string \<times> string payment_state) promise" where
  "CustomPaymentMethod_initializePayment has_container pm =
     (if \<not> has_container then Inl (Error ''Payment container not found.'')
      else Inr (''custom-payment'', state pm))"

text \<open>
  \<open>validatePayment\<close>: \<open>paymentData && paymentData.length > 0\<close>. The method returns the
  settled promise and the instance after the call.
\<close>

definition CustomPaymentMethod_validatePayment ::
  "CustomPaymentMethod \<Rightarrow> unit promise \<times> CustomPaymentMethod" where
  "CustomPaymentMethod_validatePayment pm =
     (if (case paymentData (state pm) of None \<Rightarrow> False | Some s \<Rightarrow> s \<noteq> [] \<and> length s > 0)
      then (Inr (), pm)
      else (Inl (Error ''Payment validation failed. Please enter valid payment details.''), pm))"

text \<open>
  \<open>submitPayment\<close>: the promise settles from a timer callback one second later; the
  model gives what it settles with. The resolved value is the method type and the data.
\<close>

definition CustomPaymentMethod_submitPayment ::
  "CustomPaymentMethod \<Rightarrow> (string \<times> string) promise \<times> CustomPaymentMethod" where
  "CustomPaymentMethod_submitPayment pm =
     (case paymentData (state pm) of
        Some s \<Rightarrow>
          (if s \<noteq> [] then (Inr (''custom-payment'', s), pm)
           else (Inl (Error ''Payment submission failed. No payment data provided.''), pm))
      | None \<Rightarrow> (Inl (Error ''Payment submission failed. No payment data provided.''), pm))"

subsection \<open>DellPaymentMethod\<close>

record dell_payment_data =
  accountNumber :: string
  poNumber :: string

record dell_state = "dell_payment_data payment_state" +
  methodId :: string
  gateway :: string

type_synonym DellPaymentMethod = "dell_state payment_method"

definition new_DellPaymentMethod :: "js \<Rightarrow> DellPaymentMethod" where
  "new_DellPaymentMethod opts =
     \<lparr> options = (if truthy opts then opts else JObj []),
       state = \<lparr> state_method = ''dell-payment'', customerId = None, paymentData = None,
                 methodId = ''dell_payment'', gateway = ''dell_payment_gateway'' \<rparr> \<rparr>"

text \<open>
  The part of the page the Dell method reads: the text of each of the two inputs, \<open>None\<close>
  when the element is not on the page (\<open>querySelector(...)?.value\<close> is then
  \<open>undefined\<close>).
\<close>

record dell_form =
  dell_account_number :: "string option"
  dell_purchase_order :: "string option"

definition DellPaymentMethod_initializePayment ::
  "bool \<Rightarrow> DellPaymentMethod \<Rightarrow> (string \<times> string) promise" where
  "DellPaymentMethod_initializePayment has_container pm =
     (if \<not> has_container then Inl (Error ''Dell payment container not found.'')
      else Inr (methodId (state pm), gateway (state pm)))"

definition DellPaymentMethod_validatePayment ::
  "dell_form \<Rightarrow> DellPaymentMethod \<Rightarrow> unit promise \<times> DellPaymentMethod" where
  "DellPaymentMethod_validatePayment page pm =
     (case (dell_account_number page, dell_purchase_order page) of
        (Some a, Some p) \<Rightarrow>
          (if a \<noteq> [] \<and> p \<noteq> []
           then (Inr (),
                 pm \<lparr> state := (state pm) \<lparr> paymentData := Some \<lparr> accountNumber = a, poNumber = p \<rparr> \<rparr> \<rparr>)
           else (Inl (Error ''Please enter both Dell Account Number and PO Number''), pm))
      | _ \<Rightarrow> (Inl (Error ''Please enter both Dell Account Number and PO Number''), pm))"

text \<open>What \<open>submitPayment\<close> resolves with.\<close>

record dell_formatted_payload =
  payload_method :: string
  payload_dell_account_number :: string
  payload_purchase_order_number :: string

record dell_submission =
  submission_methodId :: string
  formattedPayload :: dell_formatted_payload

definition DellPaymentMethod_submitPayment ::
  "DellPaymentMethod \<Rightarrow> dell_submission promise \<times> DellPaymentMethod" where
  "DellPaymentMethod_submitPayment pm =
     (case paymentData (state pm) of
        Some d \<Rightarrow>
          (Inr \<lparr> submission_methodId = methodId (state pm),
                 formattedPayload =
                   \<lparr> payload_method = state_method (state pm),
                     payload_dell_account_number = accountNumber d,
                     payload_purchase_order_number = poNumber d \<rparr> \<rparr>,
           pm)
      | None \<Rightarrow> (Inl (Error ''Payment submission failed. No payment data provided.''), pm))"

section \<open>The Express router (routes.js)\<close>

datatype http_method = GET | POST

record request =
  query :: js
  body :: js

text \<open>
  What a handler sends: \<open>res.send(text)\<close> or \<open>res.json(value)\<close>, with the status set
  by \<open>res.status\<close> before it (200 when the handler sets none). The payload of
  \<open>res.json\<close> is the value handed to it.
\<close>

datatype payload = Text string | Json js

record response =
  status :: nat
  content :: payload

text \<open>
  What the handlers take from outside this file. \<open>processPayment\<close> is called by the
  \<open>/process-payment\<close> handler and is neither defined nor imported in the file: it is a
  parameter, an awaited call that throws or gives a transaction, whose \<open>id\<close> the handler
  reads. \<open>now_iso\<close> is \<open>new Date().toISOString()\<close> and \<open>now_ms\<close> is \<open>Date.now()\<close>.
\<close>

record transaction =
  transaction_id :: js

record server_env =
  processPayment :: "js \<Rightarrow> js_error + transaction"
  now_iso :: string
  now_ms :: nat

text \<open>A non-negative integer as JavaScript prints it (\<open>'TEST_' + Date.now()\<close>).\<close>

function show_nat :: "nat \<Rightarrow> string" where
  "show_nat n =
     (if n < 10 then [char_of (48 + n)]
      else show_nat (n div 10) @ [char_of (48 + n mod 10)])"
  by pat_completeness auto
termination
  by (relation "measure id") auto

text \<open>
  A handler is an async function: it ends with a response sent (\<open>Inr\<close>), or its promise
  rejects with nothing sent (\<open>Inl\<close>).
\<close>

type_synonym handler = "server_env \<Rightarrow> request \<Rightarrow> js_error + response"

text \<open>
  \<open>const { a, b, c } = v\<close> throws a TypeError when \<open>v\<close> is \<open>undefined\<close> or \<open>null\<close>
  (\<open>src\<close> is the text of the expression, which Node puts in the message) and otherwise
  reads each property.
\<close>

definition cannot_destructure :: "string \<Rightarrow> string \<Rightarrow> string \<Rightarrow> string" where
  "cannot_destructure k src what =
     ''Cannot destructure property '' @ [CHR 0x27] @ k @ [CHR 0x27] @ '' of '' @ [CHR 0x27] @ src
       @ [CHR 0x27] @ '' as it is '' @ what @ ''.''"

definition destructure3 ::
  "string \<Rightarrow> js \<Rightarrow> string \<Rightarrow> string \<Rightarrow> string \<Rightarrow> js_error + (js \<times> js \<times> js)" where
  "destructure3 src v a b c =
     (case v of
        JUndefined \<Rightarrow> Inl (TypeError (cannot_destructure a src ''undefined''))
      | JNull \<Rightarrow> Inl (TypeError (cannot_destructure a src ''null''))
      | _ \<Rightarrow>
          and_then (get_prop v a) (\<lambda>x.
          and_then (get_prop v b) (\<lambda>y.
          and_then (get_prop v c) (\<lambda>z. Inr (x, y, z)))))"

text \<open>\<open>GET /auth/callback\<close>\<close>

definition auth_callback :: handler where
  "auth_callback env req =
     (case destructure3 ''req.query'' (query req) ''code'' ''scope'' ''context'' of
        Inr _ \<Rightarrow> Inr \<lparr> status = 200, content = Text ''Authorization successful'' \<rparr>
      | Inl e \<Rightarrow> Inr \<lparr> status = 400, content = Json (JObj [(''error'', JStr (message e))]) \<rparr>)"

text \<open>
  \<open>POST /process-payment\<close>. \<open>process_payment_try\<close> is the body of the \<open>try\<close> block,
  \<open>process_payment\<close> the handler with its \<open>catch\<close>.
\<close>

definition process_payment_try :: "server_env \<Rightarrow> request \<Rightarrow> js_error + response" where
  "process_payment_try env req =
     and_then (destructure3 ''req.body'' (body req) ''payment_data'' ''order_id'' ''context'')
       (\<lambda>(payment_data, order_id, context).
          if \<not> truthy payment_data \<or> \<not> truthy order_id
          then Inl (Error ''Missing required fields'')
          else
            and_then (processPayment env payment_data) (\<lambda>tx.
            and_then (get_prop payment_data ''amount'') (\<lambda>amount.
            and_then (get_prop payment_data ''currency'') (\<lambda>currency.
              Inr \<lparr> status = 200,
                    content = Json (JObj
                      [(''status'', JStr ''success''),
                       (''transaction_id'', transaction_id tx),
                       (''amount'', amount),
                       (''currency'', currency),
                       (''timestamp'', JStr (now_iso env))]) \<rparr>))))"

text \<open>\<open>res.status(400).json({ status: 'error', message: m })\<close>\<close>

definition error_response :: "string \<Rightarrow> response" where
  "error_response m =
     \<lparr> status = 400, content = Json (JObj [(''status'', JStr ''error''), (''message'', JStr m)]) \<rparr>"

definition process_payment :: handler where
  "process_payment env req =
     (case process_payment_try env req of
        Inr r \<Rightarrow> Inr r
      | Inl e \<Rightarrow> Inr (error_response (message e)))"

text \<open>\<open>POST /process-payment-test\<close>: no guard and no \<open>try\<close>.\<close>

definition process_payment_test :: handler where
  "process_payment_test env req =
     and_then (get_prop (body req) ''payment_data'') (\<lambda>payment_data.
     and_then (get_prop payment_data ''amount'') (\<lambda>amount.
     and_then (get_prop (body req) ''payment_data'') (\<lambda>payment_data'.
     and_then (get_prop payment_data' ''currency'') (\<lambda>currency.
       Inr \<lparr> status = 200,
             content = Json (JObj
               [(''status'', JStr ''success''),
                (''transaction_id'', JStr (''TEST_'' @ show_nat (now_ms env))),
                (''amount'', amount),
                (''currency'', currency),
                (''timestamp'', JStr (now_iso env))]) \<rparr>))))"

text \<open>
  The router is the list of its routes in the order of registration; \<open>router.get\<close> and
  \<open>router.post\<close> append one. A request goes to the first route of its method and path.
\<close>

record route =
  route_method :: http_method
  route_path :: string
  route_handler :: handler

definition router_get :: "string \<Rightarrow> handler \<Rightarrow> route list \<Rightarrow> route list" where
  "router_get p h r = r @ [\<lparr> route_method = GET, route_path = p, route_handler = h \<rparr>]"

definition router_post :: "string \<Rightarrow> handler \<Rightarrow> route list \<Rightarrow> route list" where
  "router_post p h r = r @ [\<lparr> route_method = POST, route_path = p, route_handler = h \<rparr>]"

definition router :: "route list" where
  "router =
     router_post ''/process-payment-test'' process_payment_test
       (router_post ''/process-payment'' process_payment
         (router_get ''/auth/callback'' auth_callback []))"

fun dispatch :: "route list \<Rightarrow> http_method \<Rightarrow> string \<Rightarrow> handler option" where
  "dispatch [] m p = None"
| "dispatch (r # rs) m p =
     (if route_method r = m \<and> route_path r = p then Some (route_handler r) else dispatch rs m p)"

section \<open>The checkout component (Checkout.tsx)\<close>

text \<open>
  Modelled from the spec: the declarations of \<open>CheckoutStepType\<close> and
  \<open>CheckoutStepStatus\<close> are imported by Checkout.tsx from files that are not part of the
  sources at hand. The spec names the steps: customer, shipping, billing, payment; the
  component reads \<open>type\<close>, \<open>isActive\<close>, \<open>isBusy\<close> and \<open>isRequired\<close> of a step status.
\<close>

datatype CheckoutStepType = Billing | Customer | Payment | Shipping

record CheckoutStepStatus =
  isActive :: bool
  isBusy :: bool
  isRequired :: bool
  type :: CheckoutStepType

text \<open>
  \<open>CheckoutState\<close>. An optional field is an \<open>option\<close>. The customer view type, the
  flash messages and the button configurations are kept by name only: no operation
  modelled here reads them.
\<close>

record CheckoutState =
  activeStepType :: "CheckoutStepType option"
  isBillingSameAsShipping :: bool
  customerViewType :: "string option"
  defaultStepType :: "CheckoutStepType option"
  error :: "js_error option"
  flashMessages :: "string list option"
  isMultiShippingMode :: bool
  isCartEmpty :: bool
  isRedirecting :: bool
  hasSelectedShippingOptions :: bool
  isSubscribed :: bool
  buttonConfigs :: "string list"

definition initial_state :: CheckoutState where
  "initial_state =
     \<lparr> activeStepType = None, isBillingSameAsShipping = True, customerViewType = None,
       defaultStepType = None, error = None, flashMessages = None,
       isMultiShippingMode = False, isCartEmpty = False, isRedirecting = False,
       hasSelectedShippingOptions = False, isSubscribed = False, buttonConfigs = [] \<rparr>"

text \<open>
  The parts of \<open>Address\<close> and \<open>Cart\<close> (checkout-sdk types) that the component reads:
  \<open>cart_id\<close> is \<open>cart.id\<close>, \<open>currency_code\<close> is \<open>cart.currency.code\<close> and
  \<open>physicalItems\<close> is \<open>cart.lineItems.physicalItems\<close>. \<open>'n\<close> is the type of JavaScript
  numbers; the component only prints them.
\<close>

record Address =
  firstName :: string
  lastName :: string
  address1 :: string
  address2 :: string
  city :: string
  stateOrProvinceCode :: string
  countryCode :: string
  postalCode :: string
  phone :: string

record 'n PhysicalItem =
  name :: string
  quantity :: 'n
  extendedListPrice :: 'n

record 'n Cart =
  cart_id :: string
  currency_code :: string
  cartAmount :: 'n
  physicalItems :: "'n PhysicalItem list"

record Consignment =
  consignment_id :: string

text \<open>The props the modelled methods read (\<open>WithCheckoutProps\<close>).\<close>

record 'n WithCheckoutProps =
  billingAddress :: "Address option"
  cart :: "'n Cart option"
  consignments :: "Consignment list option"
  props_error :: "js_error option"
  steps :: "CheckoutStepStatus list"

text \<open>The body of the request that \<open>logOrderDetailsAndNavigate\<close> posts.\<close>

record request_address =
  req_address1 :: string
  req_address2 :: string
  req_city :: string
  req_state :: string
  req_country :: string
  req_zipCode :: string
  req_phoneNumber :: string

record request_product =
  productDescription :: string
  product_quantity :: string
  productAmount :: string

record payment_request =
  address :: request_address
  buid :: string
  country :: string
  region :: string
  currency :: string
  successUrl :: string
  cancelUrl :: string
  clientSessionId :: string
  orderDescription :: string
  amount :: string
  segment :: string
  language :: string
  salesChannel :: string
  companyNumber :: string
  products :: "request_product list"
  paymentMode :: string
  orderNumber :: string

text \<open>
  What the component does to the world outside its state, in the order it does it:
  console output (the text and the values logged with it), the HTTP request of
  \<open>axios.post\<close>, an assignment to \<open>window.location.href\<close>, the submission of a DOM form
  to an action URL, and the calls of \<open>analyticsTracker.trackStepCompleted\<close> and of the
  \<open>clearError\<close> prop.
\<close>

datatype effect =
    ConsoleError string "js list"
  | ConsoleLog string "js list"
  | HttpPost string payment_request
  | LocationAssign js
  | FormSubmit string
  | TrackStepCompleted CheckoutStepType
  | ClearError js_error

fun isFormSubmit :: "effect \<Rightarrow> bool" where
  "isFormSubmit (FormSubmit _) = True"
| "isFormSubmit _ = False"

fun isLocationAssign :: "effect \<Rightarrow> bool" where
  "isLocationAssign (LocationAssign _) = True"
| "isLocationAssign _ = False"

fun isHttpPost :: "effect \<Rightarrow> bool" where
  "isHttpPost (HttpPost _ _) = True"
| "isHttpPost _ = False"

fun isConsoleError :: "effect \<Rightarrow> bool" where
  "isConsoleError (ConsoleError _ _) = True"
| "isConsoleError _ = False"

text \<open>
  The browser around the component: \<open>window.location.origin\<close>, \<open>Date.now()\<close>,
  \<open>Number.prototype.toString\<close>, and what \<open>await axios.post(url, body)\<close> gives:
  the \<open>data\<close> of the response, or the error it throws (no connection, a status outside
  2xx).
\<close>

record 'n browser =
  origin :: string
  date_now :: nat
  number_toString :: "'n \<Rightarrow> string"
  axios_post :: "string \<Rightarrow> payment_request \<Rightarrow> js_error + js"

text \<open>\<open>a || b\<close> on strings.\<close>

definition or_else :: "string \<Rightarrow> string \<Rightarrow> string" where
  "or_else a b = (if a \<noteq> [] then a else b)"

definition requestBody :: "'n browser \<Rightarrow> 'n Cart \<Rightarrow> Address \<Rightarrow> payment_request" where
  "requestBody w c b =
     \<lparr> address =
         \<lparr> req_address1 = address1 b,
           req_address2 = or_else (address2 b) [],
           req_city = city b,
           req_state = stateOrProvinceCode b,
           req_country = countryCode b,
           req_zipCode = postalCode b,
           req_phoneNumber = or_else (phone b) ''N/A'' \<rparr>,
       buid = ''11'',
       country = ''US'',
       region = ''US'',
       currency = currency_code c,
       successUrl = origin w @ ''/checkout/order-confirmation'',
       cancelUrl = origin w @ ''/checkout'',
       clientSessionId = cart_id c,
       orderDescription = ''Order for '' @ firstName b @ '' '' @ lastName b,
       amount = number_toString w (cartAmount c),
       segment = ''dhs'',
       language = ''EN'',
       salesChannel = ''US_19'',
       companyNumber = ''14'',
       products =
         map (\<lambda>item.
                \<lparr> productDescription = name item,
                  product_quantity = number_toString w (quantity item),
                  productAmount = number_toString w (extendedListPrice item) \<rparr>)
             (physicalItems c),
       paymentMode = ''Initial'',
       orderNumber = show_nat (date_now w) @ ''.11'' \<rparr>"

definition payments_url :: string where
  "payments_url = ''http://127.0.0.1:3000/api/v1/payments''"

text \<open>
  \<open>logOrderDetailsAndNavigate\<close>, the click handler of the Place Order button. It gives
  the component state after the call and the effects. \<open>after_post\<close> is the \<open>try\<close> block
  with its empty \<open>catch\<close>.
\<close>

definition after_post :: "'n browser \<Rightarrow> payment_request \<Rightarrow> effect list" where
  "after_post w rb =
     (case axios_post w payments_url rb of
        Inl e \<Rightarrow> [HttpPost payments_url rb]
      | Inr data \<Rightarrow>
          (case (if truthy data then get_prop data ''redirectUrl'' else Inr data) of
             Inl e \<Rightarrow> [HttpPost payments_url rb]
           | Inr redirectUrl \<Rightarrow>
               if truthy redirectUrl
               then [HttpPost payments_url rb,
                     ConsoleLog ''Redirecting to payment portal:'' [redirectUrl],
                     LocationAssign redirectUrl]
               else [HttpPost payments_url rb,
                     ConsoleError ''Unexpected response structure:'' [data]]))"

definition logOrderDetailsAndNavigate ::
  "'n browser \<Rightarrow> 'n WithCheckoutProps \<Rightarrow> CheckoutState \<Rightarrow> CheckoutState \<times> effect list" where
  "logOrderDetailsAndNavigate w props st =
     (case (cart props, billingAddress props, consignments props) of
        (Some c, Some b, Some cs) \<Rightarrow>
          if cs = [] then (st, [ConsoleError ''Missing order details'' []])
          else (st, after_post w (requestBody w c b))
      | _ \<Rightarrow> (st, [ConsoleError ''Missing order details'' []]))"

text \<open>
  lodash \<open>find\<close> is \<open>List.find\<close>. \<open>findIndex\<close> gives the index of the first match, or
  \<open>-1\<close>. \<open>xs[i]\<close> is \<open>undefined\<close> outside the list.
\<close>

fun findIndex :: "('a \<Rightarrow> bool) \<Rightarrow> 'a list \<Rightarrow> int" where
  "findIndex P [] = - 1"
| "findIndex P (x # xs) =
     (if P x then 0 else (let i = findIndex P xs in if i < 0 then - 1 else i + 1))"

definition at_index :: "'a list \<Rightarrow> int \<Rightarrow> 'a option" where
  "at_index xs i = (if 0 \<le> i \<and> i < int (length xs) then Some (xs ! nat i) else None)"

text \<open>The second argument of the navigation methods: \<open>options?: { isDefault?: boolean }\<close>.\<close>

record nav_options =
  isDefault :: "bool option"

definition wants_default :: "nav_options option \<Rightarrow> bool" where
  "wants_default opts = (case opts of None \<Rightarrow> False | Some o' \<Rightarrow> isDefault o' = Some True)"

definition navigateToStep ::
  "'n WithCheckoutProps \<Rightarrow> CheckoutState \<Rightarrow> CheckoutStepType \<Rightarrow> nav_options option
     \<Rightarrow> CheckoutState \<times> effect list" where
  "navigateToStep props st ty opts =
     (case find (\<lambda>s. type s = ty) (steps props) of
        None \<Rightarrow> (st, [])
      | Some step \<Rightarrow>
          if activeStepType st = Some (type step) then (st, [])
          else
            (if wants_default opts
             then st \<lparr> defaultStepType := Some (type step) \<rparr>
             else st \<lparr> activeStepType := Some (type step) \<rparr>,
             case props_error props of None \<Rightarrow> [] | Some e \<Rightarrow> [ClearError e]))"

definition navigateToNextIncompleteStep ::
  "'n WithCheckoutProps \<Rightarrow> CheckoutState \<Rightarrow> nav_options option \<Rightarrow> CheckoutState \<times> effect list" where
  "navigateToNextIncompleteStep props st opts =
     (let activeStepIndex = findIndex isActive (steps props) in
      case (if activeStepIndex \<ge> 0 then at_index (steps props) activeStepIndex else None) of
        None \<Rightarrow> (st, [])
      | Some activeStep \<Rightarrow>
          (let tracked =
                 (case at_index (steps props) (max (activeStepIndex - 1) 0) of
                    None \<Rightarrow> []
                  | Some previousStep \<Rightarrow> [TrackStepCompleted (type previousStep)]);
               (st', cleared) = navigateToStep props st (type activeStep) opts
           in (st', tracked @ cleared)))"

text \<open>\<open>render\<close> shows the error modal when \<open>state.error\<close> is set.\<close>

definition errorModal_shown :: "CheckoutState \<Rightarrow> bool" where
  "errorModal_shown st = (error st \<noteq> None)"

section \<open>The registration script (checkout.js)\<close>

text \<open>
  The object handed to \<open>window.checkout.registerPaymentMethod\<close>. Each hook builds a new
  \<open>CustomPaymentMethod\<close>: \<open>initializePayment\<close> from the options it is given (it also
  depends on whether the page has the payment container), the other two with no
  argument. A hook gives the promise that the method returns.
\<close>

record payment_method_registration =
  reg_id :: string
  reg_type :: string
  reg_initializePayment :: "bool \<Rightarrow> js \<Rightarrow> (string \<times> string payment_state) promise"
  reg_validatePayment :: "js \<Rightarrow> unit promise"
  reg_submitPayment :: "js \<Rightarrow> (string \<times> string) promise"

definition custom_payment_registration :: payment_method_registration where
  "custom_payment_registration =
     \<lparr> reg_id = ''custom-payment'',
       reg_type = ''custom-payment'',
       reg_initializePayment =
         (\<lambda>has_container opts.
            CustomPaymentMethod_initializePayment has_container (new_CustomPaymentMethod opts)),
       reg_validatePayment =
         (\<lambda>payment. fst (CustomPaymentMethod_validatePayment (new_CustomPaymentMethod JUndefined))),
       reg_submitPayment =
         (\<lambda>payment. fst (CustomPaymentMethod_submitPayment (new_CustomPaymentMethod JUndefined))) \<rparr>"

text \<open>
  The script: \<open>window.checkout\<close> is missing (\<open>None\<close>) or holds the methods registered
  so far.
\<close>

definition checkout_js ::
  "payment_method_registration list option
     \<Rightarrow> payment_method_registration list option \<times> effect list" where
  "checkout_js window_checkout =
     (case window_checkout of
        None \<Rightarrow>
          (None,
           [ConsoleError ''Checkout object not found. Ensure Checkout SDK is loaded properly.'' []])
      | Some registered \<Rightarrow>
          (Some (registered @ [custom_payment_registration]),
           [ConsoleLog ''Custom payment method registered successfully.'' []]))"

text \<open>
  A \<open>DellPaymentMethod\<close> after \<open>validatePayment\<close> has been called once for each of the
  given pages, in order. \<open>validatePayment\<close> is the only method that assigns to the state.
\<close>

fun dell_validations :: "dell_form list \<Rightarrow> DellPaymentMethod \<Rightarrow> DellPaymentMethod" where
  "dell_validations [] pm = pm"
| "dell_validations (page # pages) pm =
     dell_validations pages (snd (DellPaymentMethod_validatePayment page pm))"

text \<open>Two pages for the Dell form: both inputs filled, and an empty order number.\<close>

definition example_dell_page :: dell_form where
  "example_dell_page = \<lparr> dell_account_number = Some ''ACC-77'', dell_purchase_order = Some ''PO-9'' \<rparr>"

definition example_dell_page_empty :: dell_form where
  "example_dell_page_empty = \<lparr> dell_account_number = Some ''ACC-77'', dell_purchase_order = Some [] \<rparr>"

section \<open>Concrete inputs and notions used in the statements\<close>

text \<open>
  A request body lacks a field when it is not an object or the object has no such
  property.
\<close>

definition body_lacks :: "js \<Rightarrow> string \<Rightarrow> bool" where
  "body_lacks v k = (case v of JObj kvs \<Rightarrow> map_of kvs k = None | _ \<Rightarrow> True)"

text \<open>
  Two servers, one whose payment processing succeeds and one whose processing throws, and
  three requests: a complete one, one whose \<open>order_id\<close> is the number 0, and one without
  \<open>payment_data\<close>.
\<close>

definition example_server :: server_env where
  "example_server =
     \<lparr> processPayment = (\<lambda>payment_data. Inr \<lparr> transaction_id = JStr ''txn_1'' \<rparr>),
       now_iso = ''2024-01-01T00:00:00.000Z'',
       now_ms = 1704067200000 \<rparr>"

definition declining_server :: server_env where
  "declining_server =
     \<lparr> processPayment = (\<lambda>payment_data. Inl (Error ''card declined'')),
       now_iso = ''2024-01-01T00:00:00.000Z'',
       now_ms = 1704067200000 \<rparr>"

definition example_payment_data :: js where
  "example_payment_data = JObj [(''amount'', JNum 10), (''currency'', JStr ''USD'')]"

definition request_ok :: request where
  "request_ok =
     \<lparr> query = JObj [],
       body = JObj [(''payment_data'', example_payment_data), (''order_id'', JStr ''1001'')] \<rparr>"

definition request_order_zero :: request where
  "request_order_zero =
     \<lparr> query = JObj [],
       body = JObj [(''payment_data'', example_payment_data), (''order_id'', JNum 0)] \<rparr>"

definition request_no_payment_data :: request where
  "request_no_payment_data = \<lparr> query = JObj [], body = JObj [(''order_id'', JStr ''1001'')] \<rparr>"

text \<open>
  A shopper with an address, a cart and one consignment, at a checkout whose first step
  (customer) is active and whose \<open>error\<close> prop is set; the same props without a cart,
  with the second step active, and with no active step. Three browsers: one whose payment
  request is answered with a redirect URL, one whose request fails, one whose request is
  answered without a redirect URL.
\<close>

definition example_address :: Address where
  "example_address =
     \<lparr> firstName = ''Ada'', lastName = ''Byron'', address1 = ''1 Main St'', address2 = [],
       city = ''Austin'', stateOrProvinceCode = ''TX'', countryCode = ''US'',
       postalCode = ''78701'', phone = [] \<rparr>"

definition example_cart :: "nat Cart" where
  "example_cart =
     \<lparr> cart_id = ''cart-1'', currency_code = ''USD'', cartAmount = 120,
       physicalItems = [\<lparr> name = ''Laptop stand'', quantity = 2, extendedListPrice = 60 \<rparr>] \<rparr>"

definition example_steps :: "CheckoutStepStatus list" where
  "example_steps =
     [\<lparr> isActive = True, isBusy = False, isRequired = True, type = Customer \<rparr>,
      \<lparr> isActive = False, isBusy = False, isRequired = True, type = Shipping \<rparr>]"

definition example_props :: "nat WithCheckoutProps" where
  "example_props =
     \<lparr> billingAddress = Some example_address,
       cart = Some example_cart,
       consignments = Some [\<lparr> consignment_id = ''c-1'' \<rparr>],
       props_error = Some (Error ''stale session''),
       steps = example_steps \<rparr>"

definition props_without_cart :: "nat WithCheckoutProps" where
  "props_without_cart = example_props \<lparr> cart := None \<rparr>"

definition redirecting_browser :: "nat browser" where
  "redirecting_browser =
     \<lparr> origin = ''https://shop.example.com'',
       date_now = 1704067200000,
       number_toString = show_nat,
       axios_post = (\<lambda>url rb. Inr (JObj [(''redirectUrl'', JStr ''https://pay.example.com/portal/abc'')])) \<rparr>"

definition offline_browser :: "nat browser" where
  "offline_browser = redirecting_browser \<lparr> axios_post := (\<lambda>url rb. Inl (Error ''Network Error'')) \<rparr>"

definition unhelpful_browser :: "nat browser" where
  "unhelpful_browser = redirecting_browser \<lparr> axios_post := (\<lambda>url rb. Inr (JObj [])) \<rparr>"

definition example_nav_default :: "nav_options option" where
  "example_nav_default = Some \<lparr> isDefault = Some True \<rparr>"

definition props_second_active :: "nat WithCheckoutProps" where
  "props_second_active =
     example_props \<lparr> steps :=
       [\<lparr> isActive = False, isBusy = False, isRequired = True, type = Customer \<rparr>,
        \<lparr> isActive = True, isBusy = False, isRequired = True, type = Shipping \<rparr>] \<rparr>"

definition props_none_active :: "nat WithCheckoutProps" where
  "props_none_active =
     example_props \<lparr> steps :=
       [\<lparr> isActive = False, isBusy = False, isRequired = True, type = Customer \<rparr>,
        \<lparr> isActive = False, isBusy = False, isRequired = True, type = Shipping \<rparr>] \<rparr>"

section \<open>Properties\<close>

subsection \<open>The payment methods\<close>

lemma new_custom_paymentData: "paymentData (state (new_CustomPaymentMethod opts)) = None"
  by (simp add: new_CustomPaymentMethod_def)

text \<open>
  C2. Whatever payment argument the checkout passes, the \<open>validatePayment\<close> hook and the
  \<open>submitPayment\<close> hook registered for \<open>custom-payment\<close> reject: each builds a new
  \<open>CustomPaymentMethod\<close>, whose payment data is \<open>null\<close>. This is the method the script
  registers when \<open>window.checkout\<close> exists. On any instance, \<open>validatePayment\<close> and
  \<open>submitPayment\<close> reject when the payment data is \<open>null\<close> or the empty string.
\<close>

theorem registered_hooks_reject:
  "paymentData (state (new_CustomPaymentMethod opts)) = None
   \<and> reg_validatePayment custom_payment_registration payment =
     Inl (Error ''Payment validation failed. Please enter valid payment details.'')
   \<and> reg_submitPayment custom_payment_registration payment =
     Inl (Error ''Payment submission failed. No payment data provided.'')
   \<and> checkout_js (Some registered) =
     (Some (registered @ [custom_payment_registration]),
      [ConsoleLog ''Custom payment method registered successfully.'' []])
   \<and> fst (CustomPaymentMethod_validatePayment
            (pm \<lparr> state := (state pm) \<lparr> paymentData := None \<rparr> \<rparr>)) =
     Inl (Error ''Payment validation failed. Please enter valid payment details.'')
   \<and> fst (CustomPaymentMethod_validatePayment
            (pm \<lparr> state := (state pm) \<lparr> paymentData := Some [] \<rparr> \<rparr>)) =
     Inl (Error ''Payment validation failed. Please enter valid payment details.'')
   \<and> fst (CustomPaymentMethod_submitPayment
            (pm \<lparr> state := (state pm) \<lparr> paymentData := None \<rparr> \<rparr>)) =
     Inl (Error ''Payment submission failed. No payment data provided.'')
   \<and> fst (CustomPaymentMethod_submitPayment
            (pm \<lparr> state := (state pm) \<lparr> paymentData := Some [] \<rparr> \<rparr>)) =
     Inl (Error ''Payment submission failed. No payment data provided.'')"
  by (simp add: custom_payment_registration_def CustomPaymentMethod_validatePayment_def
      CustomPaymentMethod_submitPayment_def new_custom_paymentData checkout_js_def)

text \<open>
  C8. \<open>validatePayment\<close> of a \<open>CustomPaymentMethod\<close> resolves exactly when the payment
  data of the instance is a non-empty string; otherwise it rejects with the message
  "Payment validation failed. Please enter valid payment details."; the instance is
  the same after the call.
\<close>

theorem custom_validatePayment_iff:
  "((\<exists>u. fst (CustomPaymentMethod_validatePayment pm) = Inr u)
      \<longleftrightarrow> (\<exists>s. paymentData (state pm) = Some s \<and> s \<noteq> []))
   \<and> (fst (CustomPaymentMethod_validatePayment pm) = Inr ()
        \<or> fst (CustomPaymentMethod_validatePayment pm) =
            Inl (Error ''Payment validation failed. Please enter valid payment details.''))
   \<and> snd (CustomPaymentMethod_validatePayment pm) = pm"
  by (auto simp: CustomPaymentMethod_validatePayment_def split: option.splits)

theorem custom_validatePayment_iff_witness:
  "fst (CustomPaymentMethod_validatePayment
          (CustomPaymentMethod_onSubmitClick ''4111'' (new_CustomPaymentMethod JUndefined))) = Inr ()
   \<and> fst (CustomPaymentMethod_validatePayment (new_CustomPaymentMethod JUndefined)) =
       Inl (Error ''Payment validation failed. Please enter valid payment details.'')"
  using custom_validatePayment_iff
          [of "CustomPaymentMethod_onSubmitClick ''4111'' (new_CustomPaymentMethod JUndefined)"]
        custom_validatePayment_iff [of "new_CustomPaymentMethod JUndefined"]
  by (auto simp: CustomPaymentMethod_onSubmitClick_def new_CustomPaymentMethod_def)

lemma dell_validate_ids:
  "methodId (state (snd (DellPaymentMethod_validatePayment page pm))) = methodId (state pm)
   \<and> state_method (state (snd (DellPaymentMethod_validatePayment page pm))) = state_method (state pm)"
  by (simp add: DellPaymentMethod_validatePayment_def split: option.splits)

lemma dell_validations_ids:
  "methodId (state (dell_validations pages pm)) = methodId (state pm)
   \<and> state_method (state (dell_validations pages pm)) = state_method (state pm)"
  by (induction pages arbitrary: pm) (simp_all add: dell_validate_ids)

lemma dell_instance_ids:
  "methodId (state (dell_validations pages (new_DellPaymentMethod opts))) = ''dell_payment''
   \<and> state_method (state (dell_validations pages (new_DellPaymentMethod opts))) = ''dell-payment''"
  by (simp add: dell_validations_ids) (simp add: new_DellPaymentMethod_def)

lemma dell_validate_stores:
  "dell_account_number page = Some a \<Longrightarrow> dell_purchase_order page = Some p \<Longrightarrow> a \<noteq> [] \<Longrightarrow> p \<noteq> []
   \<Longrightarrow> DellPaymentMethod_validatePayment page pm =
         (Inr (), pm \<lparr> state := (state pm) \<lparr> paymentData := Some \<lparr> accountNumber = a, poNumber = p \<rparr> \<rparr> \<rparr>)"
  by (simp add: DellPaymentMethod_validatePayment_def)

lemma dell_validate_rejects:
  "\<not> (\<exists>a p. dell_account_number page = Some a \<and> dell_purchase_order page = Some p \<and> a \<noteq> [] \<and> p \<noteq> [])
   \<Longrightarrow> DellPaymentMethod_validatePayment page pm =
         (Inl (Error ''Please enter both Dell Account Number and PO Number''), pm)"
  by (auto simp: DellPaymentMethod_validatePayment_def split: option.splits)

lemma dell_submit_some:
  "paymentData (state pm) = Some d \<Longrightarrow>
   DellPaymentMethod_submitPayment pm =
     (Inr \<lparr> submission_methodId = methodId (state pm),
            formattedPayload =
              \<lparr> payload_method = state_method (state pm),
                payload_dell_account_number = accountNumber d,
                payload_purchase_order_number = poNumber d \<rparr> \<rparr>, pm)"
  by (simp add: DellPaymentMethod_submitPayment_def)

lemma dell_submit_none:
  "paymentData (state pm) = None \<Longrightarrow>
   DellPaymentMethod_submitPayment pm =
     (Inl (Error ''Payment submission failed. No payment data provided.''), pm)"
  by (simp add: DellPaymentMethod_submitPayment_def)

text \<open>
  C9. For every \<open>DellPaymentMethod\<close> instance (built by the constructor, then
  validated any number of times): \<open>validatePayment\<close> stores the two entered values as
  the payment data when both are non-empty, and otherwise rejects and leaves the instance
  as it was; \<open>submitPayment\<close> after a successful validation resolves with the method id
  \<open>dell_payment\<close> and a payload that carries the stored account number and order
  number; \<open>submitPayment\<close> on an instance with payment data resolves with that data,
  and on one without rejects with "Payment submission failed. No payment data provided.".
\<close>

theorem dell_validate_then_submit:
  assumes inst: "pm = dell_validations pages (new_DellPaymentMethod opts)"
  shows
    "(dell_account_number page = Some a \<and> dell_purchase_order page = Some p \<and> a \<noteq> [] \<and> p \<noteq> []
        \<longrightarrow> DellPaymentMethod_validatePayment page pm =
              (Inr (), pm \<lparr> state := (state pm)
                              \<lparr> paymentData := Some \<lparr> accountNumber = a, poNumber = p \<rparr> \<rparr> \<rparr>)
          \<and> fst (DellPaymentMethod_submitPayment (snd (DellPaymentMethod_validatePayment page pm))) =
              Inr \<lparr> submission_methodId = ''dell_payment'',
                    formattedPayload =
                      \<lparr> payload_method = ''dell-payment'',
                        payload_dell_account_number = a,
                        payload_purchase_order_number = p \<rparr> \<rparr>)
     \<and> (\<not> (\<exists>a p. dell_account_number page = Some a \<and> dell_purchase_order page = Some p
                    \<and> a \<noteq> [] \<and> p \<noteq> [])
        \<longrightarrow> DellPaymentMethod_validatePayment page pm =
              (Inl (Error ''Please enter both Dell Account Number and PO Number''), pm))
     \<and> (\<forall>d. paymentData (state pm) = Some d
        \<longrightarrow> DellPaymentMethod_submitPayment pm =
              (Inr \<lparr> submission_methodId = ''dell_payment'',
                     formattedPayload =
                       \<lparr> payload_method = ''dell-payment'',
                         payload_dell_account_number = accountNumber d,
                         payload_purchase_order_number = poNumber d \<rparr> \<rparr>, pm))
     \<and> (paymentData (state pm) = None
        \<longrightarrow> DellPaymentMethod_submitPayment pm =
              (Inl (Error ''Payment submission failed. No payment data provided.''), pm))"
proof -
  have ids: "methodId (state pm) = ''dell_payment''" "state_method (state pm) = ''dell-payment''"
    using dell_instance_ids [of pages opts] inst by simp_all
  have stores: "dell_account_number page = Some a \<and> dell_purchase_order page = Some p \<and> a \<noteq> [] \<and> p \<noteq> []
        \<longrightarrow> DellPaymentMethod_validatePayment page pm =
              (Inr (), pm \<lparr> state := (state pm)
                              \<lparr> paymentData := Some \<lparr> accountNumber = a, poNumber = p \<rparr> \<rparr> \<rparr>)
          \<and> fst (DellPaymentMethod_submitPayment (snd (DellPaymentMethod_validatePayment page pm))) =
              Inr \<lparr> submission_methodId = ''dell_payment'',
                    formattedPayload =
                      \<lparr> payload_method = ''dell-payment'',
                        payload_dell_account_number = a,
                        payload_purchase_order_number = p \<rparr> \<rparr>"
    by (simp add: dell_validate_stores dell_submit_some ids)
  have rejects: "\<not> (\<exists>a p. dell_account_number page = Some a \<and> dell_purchase_order page = Some p
                    \<and> a \<noteq> [] \<and> p \<noteq> [])
        \<longrightarrow> DellPaymentMethod_validatePayment page pm =
              (Inl (Error ''Please enter both Dell Account Number and PO Number''), pm)"
    using dell_validate_rejects [of page pm] by blast
  have sub_some: "\<forall>d. paymentData (state pm) = Some d
        \<longrightarrow> DellPaymentMethod_submitPayment pm =
              (Inr \<lparr> submission_methodId = ''dell_payment'',
                     formattedPayload =
                       \<lparr> payload_method = ''dell-payment'',
                         payload_dell_account_number = accountNumber d,
                         payload_purchase_order_number = poNumber d \<rparr> \<rparr>, pm)"
    by (simp add: dell_submit_some ids)
  have sub_none: "paymentData (state pm) = None
        \<longrightarrow> DellPaymentMethod_submitPayment pm =
              (Inl (Error ''Payment submission failed. No payment data provided.''), pm)"
    by (simp add: dell_submit_none)
  from stores rejects sub_some sub_none show ?thesis by blast
qed

theorem dell_validate_then_submit_witness:
  "fst (DellPaymentMethod_validatePayment example_dell_page (new_DellPaymentMethod JUndefined)) = Inr ()
   \<and> paymentData (state (snd (DellPaymentMethod_validatePayment example_dell_page
        (new_DellPaymentMethod JUndefined)))) = Some \<lparr> accountNumber = ''ACC-77'', poNumber = ''PO-9'' \<rparr>
   \<and> fst (DellPaymentMethod_submitPayment (snd (DellPaymentMethod_validatePayment example_dell_page
        (new_DellPaymentMethod JUndefined)))) =
       Inr \<lparr> submission_methodId = ''dell_payment'',
             formattedPayload =
               \<lparr> payload_method = ''dell-payment'',
                 payload_dell_account_number = ''ACC-77'',
                 payload_purchase_order_number = ''PO-9'' \<rparr> \<rparr>
   \<and> DellPaymentMethod_validatePayment example_dell_page_empty (new_DellPaymentMethod JUndefined) =
       (Inl (Error ''Please enter both Dell Account Number and PO Number''), new_DellPaymentMethod JUndefined)
   \<and> fst (DellPaymentMethod_submitPayment (new_DellPaymentMethod JUndefined)) =
       Inl (Error ''Payment submission failed. No payment data provided.'')"
proof -
  have inst: "new_DellPaymentMethod JUndefined = dell_validations [] (new_DellPaymentMethod JUndefined)"
    by simp
  have a: "dell_account_number example_dell_page = Some ''ACC-77''
           \<and> dell_purchase_order example_dell_page = Some ''PO-9'' \<and> ''ACC-77'' \<noteq> [] \<and> ''PO-9'' \<noteq> []"
    by (simp add: example_dell_page_def)
  have b: "\<not> (\<exists>a p. dell_account_number example_dell_page_empty = Some a
                \<and> dell_purchase_order example_dell_page_empty = Some p \<and> a \<noteq> [] \<and> p \<noteq> [])"
    by (simp add: example_dell_page_empty_def)
  have c: "paymentData (state (new_DellPaymentMethod JUndefined)) = None"
    by (simp add: new_DellPaymentMethod_def)
  from dell_validate_then_submit [OF inst, of example_dell_page "''ACC-77''" "''PO-9''"] a
  have 1: "DellPaymentMethod_validatePayment example_dell_page (new_DellPaymentMethod JUndefined) =
              (Inr (), (new_DellPaymentMethod JUndefined) \<lparr> state := (state (new_DellPaymentMethod JUndefined))
                  \<lparr> paymentData := Some \<lparr> accountNumber = ''ACC-77'', poNumber = ''PO-9'' \<rparr> \<rparr> \<rparr>)"
    and 2: "fst (DellPaymentMethod_submitPayment (snd (DellPaymentMethod_validatePayment example_dell_page
        (new_DellPaymentMethod JUndefined)))) =
       Inr \<lparr> submission_methodId = ''dell_payment'',
             formattedPayload =
               \<lparr> payload_method = ''dell-payment'',
                 payload_dell_account_number = ''ACC-77'',
                 payload_purchase_order_number = ''PO-9'' \<rparr> \<rparr>"
    by blast+
  from dell_validate_then_submit [OF inst, of example_dell_page_empty] b
  have 3: "DellPaymentMethod_validatePayment example_dell_page_empty (new_DellPaymentMethod JUndefined) =
       (Inl (Error ''Please enter both Dell Account Number and PO Number''), new_DellPaymentMethod JUndefined)"
    by blast
  from dell_validate_then_submit [OF inst, of example_dell_page] c
  have 4: "DellPaymentMethod_submitPayment (new_DellPaymentMethod JUndefined) =
              (Inl (Error ''Payment submission failed. No payment data provided.''), new_DellPaymentMethod JUndefined)"
    by blast
  show ?thesis using 1 2 3 4 by simp
qed

subsection \<open>The router\<close>

lemma router_unfold:
  "router =
     [\<lparr> route_method = GET, route_path = ''/auth/callback'', route_handler = auth_callback \<rparr>,
      \<lparr> route_method = POST, route_path = ''/process-payment'', route_handler = process_payment \<rparr>,
      \<lparr> route_method = POST, route_path = ''/process-payment-test'',
        route_handler = process_payment_test \<rparr>]"
  by (simp add: router_def router_get_def router_post_def)

text \<open>
  C3, as stated (the router registers exactly two routes), fails: it registers three.
\<close>

theorem router_two_counterexample: "length router \<noteq> 2"
  by (simp add: router_unfold)

text \<open>
  C3, amended. The router registers exactly three routes: \<open>GET /auth/callback\<close>,
  \<open>POST /process-payment\<close> and \<open>POST /process-payment-test\<close>; exactly two of them, the
  two payment endpoints, are \<open>POST\<close> routes; each request goes to its handler.
\<close>

theorem router_three_routes:
  "map route_method router = [GET, POST, POST]
   \<and> map route_path router = [''/auth/callback'', ''/process-payment'', ''/process-payment-test'']
   \<and> length router = 3
   \<and> length (filter (\<lambda>r. route_method r = POST) router) = 2
   \<and> dispatch router GET ''/auth/callback'' = Some auth_callback
   \<and> dispatch router POST ''/process-payment'' = Some process_payment
   \<and> dispatch router POST ''/process-payment-test'' = Some process_payment_test"
  by (simp add: router_unfold)

lemma destructure3_obj:
  "v \<noteq> JUndefined \<Longrightarrow> v \<noteq> JNull \<Longrightarrow>
   \<exists>x y z. get_prop v a = Inr x \<and> get_prop v b = Inr y \<and> get_prop v c = Inr z
     \<and> destructure3 src v a b c = Inr (x, y, z)"
  by (cases v) (simp_all add: destructure3_def and_then_def)

lemma get_prop_Inr_not_nullish: "get_prop v k = Inr x \<Longrightarrow> v \<noteq> JUndefined \<and> v \<noteq> JNull"
  by (cases v) simp_all

lemma destructure3_nullish:
  "v = JUndefined \<or> v = JNull \<Longrightarrow> \<exists>m. destructure3 src v a b c = Inl (TypeError m)"
  by (auto simp: destructure3_def)

lemma process_payment_nullish:
  "body req = JUndefined \<or> body req = JNull \<Longrightarrow> \<exists>m. process_payment env req = Inr (error_response m)"
  using destructure3_nullish [of "body req" "''req.body''" "''payment_data''" "''order_id''" "''context''"]
  by (auto simp: process_payment_def process_payment_try_def and_then_def error_response_def)

lemma process_payment_try_fields:
  assumes "get_prop (body req) ''payment_data'' = Inr pd" "get_prop (body req) ''order_id'' = Inr oid"
  shows "process_payment_try env req =
     (if \<not> truthy pd \<or> \<not> truthy oid then Inl (Error ''Missing required fields'')
      else and_then (processPayment env pd) (\<lambda>tx.
            and_then (get_prop pd ''amount'') (\<lambda>amount.
            and_then (get_prop pd ''currency'') (\<lambda>currency.
              Inr \<lparr> status = 200,
                    content = Json (JObj
                      [(''status'', JStr ''success''),
                       (''transaction_id'', transaction_id tx),
                       (''amount'', amount),
                       (''currency'', currency),
                       (''timestamp'', JStr (now_iso env))]) \<rparr>))))"
proof -
  have nn: "body req \<noteq> JUndefined" "body req \<noteq> JNull"
    using assms(1) get_prop_Inr_not_nullish by blast+
  from destructure3_obj [OF nn, of "''payment_data''" "''order_id''" "''context''" "''req.body''"]
  obtain z where "destructure3 ''req.body'' (body req) ''payment_data'' ''order_id'' ''context'' = Inr (pd, oid, z)"
    using assms by auto
  then show ?thesis
    by (simp add: process_payment_try_def and_then_def)
qed

lemma truthy_get_prop: "truthy v \<Longrightarrow> \<exists>x. get_prop v k = Inr x"
  by (cases v) simp_all

lemma process_payment_missing:
  assumes "get_prop (body req) ''payment_data'' = Inr pd" "get_prop (body req) ''order_id'' = Inr oid"
    and "\<not> truthy pd \<or> \<not> truthy oid"
  shows "process_payment env req = Inr (error_response ''Missing required fields'')"
  using assms(3) by (simp add: process_payment_def process_payment_try_fields [OF assms(1,2)] error_response_def)

lemma process_payment_throws:
  assumes "get_prop (body req) ''payment_data'' = Inr pd" "get_prop (body req) ''order_id'' = Inr oid"
    and "truthy pd" "truthy oid" "processPayment env pd = Inl e"
  shows "process_payment env req = Inr (error_response (message e))"
  using assms(3-5)
  by (simp add: process_payment_def process_payment_try_fields [OF assms(1,2)] error_response_def and_then_def)

lemma process_payment_success:
  assumes "get_prop (body req) ''payment_data'' = Inr pd" "get_prop (body req) ''order_id'' = Inr oid"
    and "truthy pd" "truthy oid" "processPayment env pd = Inr tx"
  shows "\<exists>a c. get_prop pd ''amount'' = Inr a \<and> get_prop pd ''currency'' = Inr c
     \<and> process_payment env req =
         Inr \<lparr> status = 200,
               content = Json (JObj
                 [(''status'', JStr ''success''),
                  (''transaction_id'', transaction_id tx),
                  (''amount'', a),
                  (''currency'', c),
                  (''timestamp'', JStr (now_iso env))]) \<rparr>"
proof -
  obtain a c where ac: "get_prop pd ''amount'' = Inr a" "get_prop pd ''currency'' = Inr c"
    using truthy_get_prop [OF assms(3)] by blast
  then show ?thesis
    using assms(3-5)
    by (simp add: process_payment_def process_payment_try_fields [OF assms(1,2)] and_then_def)
qed


text \<open>
  C6, as stated, fails: a request that has both \<open>payment_data\<close> and \<open>order_id\<close>, with
  \<open>order_id\<close> the number 0, and whose payment processing does not throw is answered with
  400 and "Missing required fields".
\<close>

theorem process_payment_falsy_counterexample:
  "body request_order_zero =
     JObj [(''payment_data'', JObj [(''amount'', JNum 10), (''currency'', JStr ''USD'')]),
           (''order_id'', JNum 0)]
   \<and> \<not> body_lacks (body request_order_zero) ''payment_data''
   \<and> \<not> body_lacks (body request_order_zero) ''order_id''
   \<and> processPayment example_server (JObj [(''amount'', JNum 10), (''currency'', JStr ''USD'')]) =
       Inr \<lparr> transaction_id = JStr ''txn_1'' \<rparr>
   \<and> process_payment example_server request_order_zero =
       Inr \<lparr> status = 400,
             content = Json (JObj [(''status'', JStr ''error''),
                                   (''message'', JStr ''Missing required fields'')]) \<rparr>"
  by (simp add: request_order_zero_def example_payment_data_def body_lacks_def example_server_def
      process_payment_def process_payment_try_def destructure3_def and_then_def error_response_def)

text \<open>
  C6, amended. \<open>POST /process-payment\<close> always sends a response. For a request whose
  body is not \<open>undefined\<close> or \<open>null\<close>, it responds with status 400 and a JSON body with
  status \<open>error\<close> exactly when \<open>payment_data\<close> is falsy (absent, \<open>null\<close>, \<open>false\<close>,
  0 or the empty string) or \<open>order_id\<close> is falsy or payment processing throws; when one
  of the two fields is falsy the message is "Missing required fields"; when processing
  throws, the message is that of the error thrown; otherwise it responds with status 200
  and a JSON body with status \<open>success\<close> that echoes \<open>payment_data.amount\<close> and
  \<open>payment_data.currency\<close>. For a request with no body it responds with status 400 and
  status \<open>error\<close> too.
\<close>

theorem process_payment_responses:
  "(body req = JUndefined \<or> body req = JNull
      \<longrightarrow> (\<exists>m. process_payment env req = Inr (error_response m)))
   \<and> (\<forall>pd oid.
        get_prop (body req) ''payment_data'' = Inr pd \<and> get_prop (body req) ''order_id'' = Inr oid
        \<longrightarrow> ((\<exists>m. process_payment env req = Inr (error_response m))
               \<longleftrightarrow> (\<not> truthy pd \<or> \<not> truthy oid \<or> isl (processPayment env pd)))
          \<and> (\<not> truthy pd \<or> \<not> truthy oid
               \<longrightarrow> process_payment env req = Inr (error_response ''Missing required fields''))
          \<and> (\<forall>e. truthy pd \<and> truthy oid \<and> processPayment env pd = Inl e
               \<longrightarrow> process_payment env req = Inr (error_response (message e)))
          \<and> (\<forall>tx. truthy pd \<and> truthy oid \<and> processPayment env pd = Inr tx
               \<longrightarrow> (\<exists>a c. get_prop pd ''amount'' = Inr a \<and> get_prop pd ''currency'' = Inr c
                     \<and> process_payment env req =
                         Inr \<lparr> status = 200,
                               content = Json (JObj
                                 [(''status'', JStr ''success''),
                                  (''transaction_id'', transaction_id tx),
                                  (''amount'', a),
                                  (''currency'', c),
                                  (''timestamp'', JStr (now_iso env))]) \<rparr>)))"
proof (intro conjI allI impI)
  assume "body req = JUndefined \<or> body req = JNull"
  then show "\<exists>m. process_payment env req = Inr (error_response m)"
    by (rule process_payment_nullish)
next
  fix pd oid
  assume f: "get_prop (body req) ''payment_data'' = Inr pd \<and> get_prop (body req) ''order_id'' = Inr oid"
  show "(\<exists>m. process_payment env req = Inr (error_response m))
          \<longleftrightarrow> (\<not> truthy pd \<or> \<not> truthy oid \<or> isl (processPayment env pd))"
  proof (cases "\<not> truthy pd \<or> \<not> truthy oid")
    case True
    with f process_payment_missing [of req pd oid env] show ?thesis by blast
  next
    case False
    then have t: "truthy pd" "truthy oid" by simp_all
    show ?thesis
    proof (cases "processPayment env pd")
      case (Inl e)
      with f t process_payment_throws [of req pd oid env e] show ?thesis by auto
    next
      case (Inr tx)
      with f t process_payment_success [of req pd oid env tx] show ?thesis
        by (auto simp: error_response_def)
    qed
  qed
next
  fix pd oid
  assume "get_prop (body req) ''payment_data'' = Inr pd \<and> get_prop (body req) ''order_id'' = Inr oid"
    and "\<not> truthy pd \<or> \<not> truthy oid"
  then show "process_payment env req = Inr (error_response ''Missing required fields'')"
    using process_payment_missing [of req pd oid env] by blast
next
  fix pd oid e
  assume "get_prop (body req) ''payment_data'' = Inr pd \<and> get_prop (body req) ''order_id'' = Inr oid"
    and "truthy pd \<and> truthy oid \<and> processPayment env pd = Inl e"
  then show "process_payment env req = Inr (error_response (message e))"
    using process_payment_throws [of req pd oid env e] by blast
next
  fix pd oid tx
  assume "get_prop (body req) ''payment_data'' = Inr pd \<and> get_prop (body req) ''order_id'' = Inr oid"
    and "truthy pd \<and> truthy oid \<and> processPayment env pd = Inr tx"
  then show "\<exists>a c. get_prop pd ''amount'' = Inr a \<and> get_prop pd ''currency'' = Inr c
                     \<and> process_payment env req =
                         Inr \<lparr> status = 200,
                               content = Json (JObj
                                 [(''status'', JStr ''success''),
                                  (''transaction_id'', transaction_id tx),
                                  (''amount'', a),
                                  (''currency'', c),
                                  (''timestamp'', JStr (now_iso env))]) \<rparr>"
    using process_payment_success [of req pd oid env tx] by blast
qed

theorem process_payment_responses_witness:
  "process_payment example_server request_ok =
     Inr \<lparr> status = 200,
           content = Json (JObj
             [(''status'', JStr ''success''),
              (''transaction_id'', JStr ''txn_1''),
              (''amount'', JNum 10),
              (''currency'', JStr ''USD''),
              (''timestamp'', JStr ''2024-01-01T00:00:00.000Z'')]) \<rparr>
   \<and> process_payment example_server request_no_payment_data =
       Inr (error_response ''Missing required fields'')
   \<and> process_payment declining_server request_ok = Inr (error_response ''card declined'')"
proof -
  have f: "get_prop (body request_ok) ''payment_data'' = Inr example_payment_data
           \<and> get_prop (body request_ok) ''order_id'' = Inr (JStr ''1001'')"
    by (simp add: request_ok_def)
  have g: "get_prop (body request_no_payment_data) ''payment_data'' = Inr JUndefined
           \<and> get_prop (body request_no_payment_data) ''order_id'' = Inr (JStr ''1001'')"
    by (simp add: request_no_payment_data_def)
  have t: "truthy example_payment_data \<and> truthy (JStr ''1001'')
           \<and> processPayment example_server example_payment_data = Inr \<lparr> transaction_id = JStr ''txn_1'' \<rparr>"
    by (simp add: example_payment_data_def example_server_def)
  have d: "truthy example_payment_data \<and> truthy (JStr ''1001'')
           \<and> processPayment declining_server example_payment_data = Inl (Error ''card declined'')"
    by (simp add: example_payment_data_def declining_server_def)
  have u: "\<not> truthy JUndefined \<or> \<not> truthy (JStr ''1001'')" by simp
  from process_payment_responses [of request_ok example_server] f t
  obtain a c where ac: "get_prop example_payment_data ''amount'' = Inr a"
      "get_prop example_payment_data ''currency'' = Inr c"
      "process_payment example_server request_ok =
         Inr \<lparr> status = 200,
               content = Json (JObj
                 [(''status'', JStr ''success''),
                  (''transaction_id'', transaction_id \<lparr> transaction_id = JStr ''txn_1'' \<rparr>),
                  (''amount'', a),
                  (''currency'', c),
                  (''timestamp'', JStr (now_iso example_server))]) \<rparr>"
    by blast
  then have 1: "process_payment example_server request_ok =
     Inr \<lparr> status = 200,
           content = Json (JObj
             [(''status'', JStr ''success''),
              (''transaction_id'', JStr ''txn_1''),
              (''amount'', JNum 10),
              (''currency'', JStr ''USD''),
              (''timestamp'', JStr ''2024-01-01T00:00:00.000Z'')]) \<rparr>"
    by (simp add: example_payment_data_def example_server_def)
  from process_payment_responses [of request_no_payment_data example_server] g u
  have 2: "process_payment example_server request_no_payment_data =
       Inr (error_response ''Missing required fields'')"
    by blast
  from process_payment_responses [of request_ok declining_server] f d
  have 3: "process_payment declining_server request_ok = Inr (error_response (message (Error ''card declined'')))"
    by blast
  from 1 2 3 show ?thesis by simp
qed

text \<open>
  C7. For a \<open>POST /process-payment-test\<close> request whose body lacks \<open>payment_data\<close>, the
  handler throws a TypeError and sends nothing (when there is a body, the error is that of
  reading \<open>amount\<close> of \<open>undefined\<close>), while \<open>POST /process-payment\<close> answers the same
  request with status 400 and a JSON error body.
\<close>

theorem process_payment_test_throws:
  "body_lacks (body req) ''payment_data'' \<Longrightarrow>
     (\<exists>m. process_payment_test env req = Inl (TypeError m))
     \<and> (\<exists>m. process_payment env req = Inr (error_response m))
     \<and> (body req \<noteq> JUndefined \<and> body req \<noteq> JNull
          \<longrightarrow> process_payment_test env req = Inl (TypeError (cannot_read ''undefined'' ''amount''))
            \<and> process_payment env req = Inr (error_response ''Missing required fields''))"
proof -
  assume l: "body_lacks (body req) ''payment_data''"
  have pd: "body req \<noteq> JUndefined \<and> body req \<noteq> JNull
              \<longrightarrow> get_prop (body req) ''payment_data'' = Inr JUndefined"
    using l by (cases "body req") (simp_all add: body_lacks_def)
  have a: "\<exists>m. process_payment_test env req = Inl (TypeError m)"
    using pd by (cases "body req") (simp_all add: process_payment_test_def and_then_def)
  have b: "body req \<noteq> JUndefined \<and> body req \<noteq> JNull
          \<longrightarrow> process_payment_test env req = Inl (TypeError (cannot_read ''undefined'' ''amount''))"
    using pd by (simp add: process_payment_test_def and_then_def)
  have c: "body req \<noteq> JUndefined \<and> body req \<noteq> JNull
          \<longrightarrow> process_payment env req = Inr (error_response ''Missing required fields'')"
  proof
    assume nn: "body req \<noteq> JUndefined \<and> body req \<noteq> JNull"
    then obtain oid where "get_prop (body req) ''order_id'' = Inr oid"
      by (cases "body req") simp_all
    with pd nn show "process_payment env req = Inr (error_response ''Missing required fields'')"
      using process_payment_missing [of req JUndefined oid env] by simp
  qed
  have d: "\<exists>m. process_payment env req = Inr (error_response m)"
    using c process_payment_nullish [of req env] by blast
  from a b c d show ?thesis by blast
qed

theorem process_payment_test_throws_witness:
  "process_payment_test example_server request_no_payment_data =
     Inl (TypeError (cannot_read ''undefined'' ''amount''))
   \<and> process_payment example_server request_no_payment_data =
     Inr (error_response ''Missing required fields'')"
proof -
  have l: "body_lacks (body request_no_payment_data) ''payment_data''"
    by (simp add: body_lacks_def request_no_payment_data_def)
  have nn: "body request_no_payment_data \<noteq> JUndefined \<and> body request_no_payment_data \<noteq> JNull"
    by (simp add: request_no_payment_data_def)
  from process_payment_test_throws [OF l, of example_server] nn show ?thesis by blast
qed

subsection \<open>Place Order\<close>

lemma after_post_no_form: "filter isFormSubmit (after_post w rb) = []"
  by (simp add: after_post_def split: sum.splits)

lemma logOrder_no_form: "filter isFormSubmit (snd (logOrderDetailsAndNavigate w props st)) = []"
  by (simp add: logOrderDetailsAndNavigate_def after_post_no_form split: option.splits)

lemma logOrder_state: "fst (logOrderDetailsAndNavigate w props st) = st"
  by (simp add: logOrderDetailsAndNavigate_def split: option.splits)

lemma logOrder_missing:
  "cart props = None \<or> billingAddress props = None \<or> consignments props = None
     \<or> consignments props = Some []
   \<Longrightarrow> logOrderDetailsAndNavigate w props st = (st, [ConsoleError ''Missing order details'' []])"
  by (auto simp: logOrderDetailsAndNavigate_def split: option.splits)

lemma logOrder_present:
  "cart props = Some c \<Longrightarrow> billingAddress props = Some b \<Longrightarrow> consignments props = Some cs \<Longrightarrow> cs \<noteq> []
   \<Longrightarrow> logOrderDetailsAndNavigate w props st = (st, after_post w (requestBody w c b))"
  by (simp add: logOrderDetailsAndNavigate_def)

lemma after_post_redirect:
  "axios_post w payments_url rb = Inr data \<Longrightarrow> truthy data \<Longrightarrow> get_prop data ''redirectUrl'' = Inr u
   \<Longrightarrow> truthy u
   \<Longrightarrow> after_post w rb =
        [HttpPost payments_url rb, ConsoleLog ''Redirecting to payment portal:'' [u], LocationAssign u]"
  by (simp add: after_post_def)

lemma after_post_throws:
  "axios_post w payments_url rb = Inl e \<Longrightarrow> after_post w rb = [HttpPost payments_url rb]"
  by (simp add: after_post_def)

lemma after_post_no_redirect:
  "axios_post w payments_url rb = Inr data
   \<Longrightarrow> \<not> (truthy data \<and> (\<exists>u. get_prop data ''redirectUrl'' = Inr u \<and> truthy u))
   \<Longrightarrow> after_post w rb =
        [HttpPost payments_url rb, ConsoleError ''Unexpected response structure:'' [data]]"
  using truthy_get_prop [of data "''redirectUrl''"]
  by (auto simp: after_post_def split: sum.splits)

lemma after_post_navigates:
  "filter isLocationAssign (after_post w rb) \<noteq> [] \<Longrightarrow>
   \<exists>data u. axios_post w payments_url rb = Inr data \<and> truthy data
     \<and> get_prop data ''redirectUrl'' = Inr u \<and> truthy u"
  by (auto simp: after_post_def split: sum.splits if_splits)


text \<open>
  C1, as stated (the browser is sent to the portal by submitting a form), fails: with the
  order details present and a redirect URL in the response, no form is submitted and the
  navigation is an assignment to \<open>window.location.href\<close>; with a response without a
  redirect URL the browser does not navigate at all.
\<close>

theorem place_order_form_counterexample:
  "filter isFormSubmit (snd (logOrderDetailsAndNavigate redirecting_browser example_props initial_state)) = []
   \<and> filter isLocationAssign
        (snd (logOrderDetailsAndNavigate redirecting_browser example_props initial_state)) =
       [LocationAssign (JStr ''https://pay.example.com/portal/abc'')]
   \<and> filter isLocationAssign
        (snd (logOrderDetailsAndNavigate unhelpful_browser example_props initial_state)) = []"
  by (simp add: logOrderDetailsAndNavigate_def example_props_def after_post_def
      redirecting_browser_def unhelpful_browser_def)

text \<open>
  C1, amended. \<open>logOrderDetailsAndNavigate\<close>, the click handler of Place Order, never
  submits a form. When the cart, the billing address and a non-empty list of consignments
  are present, and the payment request is answered with data whose \<open>redirectUrl\<close> is
  truthy, it posts the order, logs the URL and sends the browser to the portal by
  assigning that URL to \<open>window.location.href\<close>; and it navigates in no other case.
\<close>

theorem place_order_redirect:
  "filter isFormSubmit (snd (logOrderDetailsAndNavigate w props st)) = []
   \<and> (\<forall>c b cs data u.
         cart props = Some c \<and> billingAddress props = Some b \<and> consignments props = Some cs
         \<and> cs \<noteq> [] \<and> axios_post w payments_url (requestBody w c b) = Inr data
         \<and> truthy data \<and> get_prop data ''redirectUrl'' = Inr u \<and> truthy u
         \<longrightarrow> logOrderDetailsAndNavigate w props st =
               (st, [HttpPost payments_url (requestBody w c b),
                     ConsoleLog ''Redirecting to payment portal:'' [u],
                     LocationAssign u]))
   \<and> (filter isLocationAssign (snd (logOrderDetailsAndNavigate w props st)) \<noteq> []
        \<longrightarrow> (\<exists>c b cs data u.
               cart props = Some c \<and> billingAddress props = Some b \<and> consignments props = Some cs
               \<and> cs \<noteq> [] \<and> axios_post w payments_url (requestBody w c b) = Inr data
               \<and> truthy data \<and> get_prop data ''redirectUrl'' = Inr u \<and> truthy u))"
proof (intro conjI allI impI)
  show "filter isFormSubmit (snd (logOrderDetailsAndNavigate w props st)) = []"
    by (rule logOrder_no_form)
next
  fix c b cs data u
  assume "cart props = Some c \<and> billingAddress props = Some b \<and> consignments props = Some cs
         \<and> cs \<noteq> [] \<and> axios_post w payments_url (requestBody w c b) = Inr data
         \<and> truthy data \<and> get_prop data ''redirectUrl'' = Inr u \<and> truthy u"
  then show "logOrderDetailsAndNavigate w props st =
               (st, [HttpPost payments_url (requestBody w c b),
                     ConsoleLog ''Redirecting to payment portal:'' [u],
                     LocationAssign u])"
    by (simp add: logOrder_present after_post_redirect)
next
  assume nav: "filter isLocationAssign (snd (logOrderDetailsAndNavigate w props st)) \<noteq> []"
  have present: "\<not> (cart props = None \<or> billingAddress props = None \<or> consignments props = None
     \<or> consignments props = Some [])"
  proof
    assume "cart props = None \<or> billingAddress props = None \<or> consignments props = None
     \<or> consignments props = Some []"
    from logOrder_missing [OF this, of w st] nav show False by simp
  qed
  then obtain c b cs where p: "cart props = Some c" "billingAddress props = Some b"
      "consignments props = Some cs" "cs \<noteq> []"
    by auto
  with nav have "filter isLocationAssign (after_post w (requestBody w c b)) \<noteq> []"
    by (simp add: logOrder_present)
  from after_post_navigates [OF this] p
  show "\<exists>c b cs data u.
               cart props = Some c \<and> billingAddress props = Some b \<and> consignments props = Some cs
               \<and> cs \<noteq> [] \<and> axios_post w payments_url (requestBody w c b) = Inr data
               \<and> truthy data \<and> get_prop data ''redirectUrl'' = Inr u \<and> truthy u"
    by blast
qed

theorem place_order_redirect_witness:
  "logOrderDetailsAndNavigate redirecting_browser example_props initial_state =
     (initial_state,
      [HttpPost payments_url (requestBody redirecting_browser example_cart example_address),
       ConsoleLog ''Redirecting to payment portal:'' [JStr ''https://pay.example.com/portal/abc''],
       LocationAssign (JStr ''https://pay.example.com/portal/abc'')])"
proof -
  have h: "cart example_props = Some example_cart \<and> billingAddress example_props = Some example_address
      \<and> consignments example_props = Some [\<lparr> consignment_id = ''c-1'' \<rparr>]
      \<and> [\<lparr> consignment_id = ''c-1'' \<rparr>] \<noteq> []
      \<and> axios_post redirecting_browser payments_url
            (requestBody redirecting_browser example_cart example_address) =
          Inr (JObj [(''redirectUrl'', JStr ''https://pay.example.com/portal/abc'')])
      \<and> truthy (JObj [(''redirectUrl'', JStr ''https://pay.example.com/portal/abc'')])
      \<and> get_prop (JObj [(''redirectUrl'', JStr ''https://pay.example.com/portal/abc'')]) ''redirectUrl'' =
          Inr (JStr ''https://pay.example.com/portal/abc'')
      \<and> truthy (JStr ''https://pay.example.com/portal/abc'')"
    by (simp add: example_props_def redirecting_browser_def)
  from place_order_redirect [of redirecting_browser example_props initial_state] h
  show ?thesis by blast
qed

text \<open>
  C10, as stated (a failed redirect check is silently discarded by the empty \<open>catch\<close>),
  fails: when the payment request is answered, without throwing, by data that has no
  \<open>redirectUrl\<close>, the handler takes the \<open>else\<close> branch and logs "Unexpected response
  structure:" with \<open>console.error\<close>, so the request is not its only effect. The browser
  still does not navigate.
\<close>

theorem place_order_unexpected_response_counterexample:
  "axios_post unhelpful_browser payments_url
       (requestBody unhelpful_browser example_cart example_address) = Inr (JObj [])
   \<and> filter isConsoleError
        (snd (logOrderDetailsAndNavigate unhelpful_browser example_props initial_state)) =
       [ConsoleError ''Unexpected response structure:'' [JObj []]]
   \<and> snd (logOrderDetailsAndNavigate unhelpful_browser example_props initial_state) \<noteq>
       [HttpPost payments_url (requestBody unhelpful_browser example_cart example_address)]
   \<and> filter isLocationAssign
        (snd (logOrderDetailsAndNavigate unhelpful_browser example_props initial_state)) = []"
  by (simp add: logOrderDetailsAndNavigate_def example_props_def after_post_def
      unhelpful_browser_def redirecting_browser_def)

text \<open>
  C10, amended. \<open>logOrderDetailsAndNavigate\<close> never changes the component state, so it
  sets no error and shows no error modal. If the cart, the billing address or the
  consignments are missing, or the consignments are empty, it only logs "Missing order
  details": no HTTP request and no navigation. If the payment request throws, the error
  is silently discarded by the empty \<open>catch\<close>: the request is the only effect. If the
  request is answered with data that has no truthy \<open>redirectUrl\<close>, the \<open>else\<close> branch
  logs the response with \<open>console.error\<close> ("Unexpected response structure:") and the
  browser does not navigate.
\<close>

theorem place_order_failures_discarded:
  "fst (logOrderDetailsAndNavigate w props st) = st
   \<and> errorModal_shown (fst (logOrderDetailsAndNavigate w props st)) = errorModal_shown st
   \<and> (cart props = None \<or> billingAddress props = None \<or> consignments props = None
        \<or> consignments props = Some []
        \<longrightarrow> snd (logOrderDetailsAndNavigate w props st) = [ConsoleError ''Missing order details'' []]
          \<and> filter isHttpPost (snd (logOrderDetailsAndNavigate w props st)) = []
          \<and> filter isLocationAssign (snd (logOrderDetailsAndNavigate w props st)) = [])
   \<and> (\<forall>c b cs e.
         cart props = Some c \<and> billingAddress props = Some b \<and> consignments props = Some cs
         \<and> cs \<noteq> [] \<and> axios_post w payments_url (requestBody w c b) = Inl e
         \<longrightarrow> snd (logOrderDetailsAndNavigate w props st) = [HttpPost payments_url (requestBody w c b)]
           \<and> filter isLocationAssign (snd (logOrderDetailsAndNavigate w props st)) = [])
   \<and> (\<forall>c b cs data.
         cart props = Some c \<and> billingAddress props = Some b \<and> consignments props = Some cs
         \<and> cs \<noteq> [] \<and> axios_post w payments_url (requestBody w c b) = Inr data
         \<and> \<not> (truthy data \<and> (\<exists>u. get_prop data ''redirectUrl'' = Inr u \<and> truthy u))
         \<longrightarrow> snd (logOrderDetailsAndNavigate w props st) =
               [HttpPost payments_url (requestBody w c b),
                ConsoleError ''Unexpected response structure:'' [data]]
           \<and> filter isLocationAssign (snd (logOrderDetailsAndNavigate w props st)) = [])"
proof (intro conjI allI impI)
  show "fst (logOrderDetailsAndNavigate w props st) = st"
    by (rule logOrder_state)
  show "errorModal_shown (fst (logOrderDetailsAndNavigate w props st)) = errorModal_shown st"
    by (simp add: logOrder_state)
next
  assume m: "cart props = None \<or> billingAddress props = None \<or> consignments props = None
        \<or> consignments props = Some []"
  show "snd (logOrderDetailsAndNavigate w props st) = [ConsoleError ''Missing order details'' []]"
    by (simp add: logOrder_missing [OF m])
  show "filter isHttpPost (snd (logOrderDetailsAndNavigate w props st)) = []"
    by (simp add: logOrder_missing [OF m])
  show "filter isLocationAssign (snd (logOrderDetailsAndNavigate w props st)) = []"
    by (simp add: logOrder_missing [OF m])
next
  fix c b cs e
  assume h: "cart props = Some c \<and> billingAddress props = Some b \<and> consignments props = Some cs
         \<and> cs \<noteq> [] \<and> axios_post w payments_url (requestBody w c b) = Inl e"
  then show "snd (logOrderDetailsAndNavigate w props st) = [HttpPost payments_url (requestBody w c b)]"
    by (simp add: logOrder_present after_post_throws)
  from h show "filter isLocationAssign (snd (logOrderDetailsAndNavigate w props st)) = []"
    by (simp add: logOrder_present after_post_throws)
next
  fix c b cs data
  assume h: "cart props = Some c \<and> billingAddress props = Some b \<and> consignments props = Some cs
         \<and> cs \<noteq> [] \<and> axios_post w payments_url (requestBody w c b) = Inr data
         \<and> \<not> (truthy data \<and> (\<exists>u. get_prop data ''redirectUrl'' = Inr u \<and> truthy u))"
  then have ap: "after_post w (requestBody w c b) =
        [HttpPost payments_url (requestBody w c b), ConsoleError ''Unexpected response structure:'' [data]]"
    using after_post_no_redirect [of w "requestBody w c b" data] by blast
  from h ap show "snd (logOrderDetailsAndNavigate w props st) =
               [HttpPost payments_url (requestBody w c b),
                ConsoleError ''Unexpected response structure:'' [data]]"
    by (simp add: logOrder_present)
  from h ap show "filter isLocationAssign (snd (logOrderDetailsAndNavigate w props st)) = []"
    by (simp add: logOrder_present)
qed

theorem place_order_failures_discarded_witness:
  "logOrderDetailsAndNavigate redirecting_browser props_without_cart initial_state =
     (initial_state, [ConsoleError ''Missing order details'' []])
   \<and> logOrderDetailsAndNavigate offline_browser example_props initial_state =
     (initial_state,
      [HttpPost payments_url (requestBody offline_browser example_cart example_address)])
   \<and> logOrderDetailsAndNavigate unhelpful_browser example_props initial_state =
     (initial_state,
      [HttpPost payments_url (requestBody unhelpful_browser example_cart example_address),
       ConsoleError ''Unexpected response structure:'' [JObj []]])"
proof -
  have m: "cart props_without_cart = None \<or> billingAddress props_without_cart = None
      \<or> consignments props_without_cart = None \<or> consignments props_without_cart = Some []"
    by (simp add: props_without_cart_def)
  have p: "cart example_props = Some example_cart" "billingAddress example_props = Some example_address"
    "consignments example_props = Some [\<lparr> consignment_id = ''c-1'' \<rparr>]"
    "[\<lparr> consignment_id = ''c-1'' \<rparr>] \<noteq> []"
    by (simp_all add: example_props_def)
  have off: "axios_post offline_browser payments_url
                (requestBody offline_browser example_cart example_address) = Inl (Error ''Network Error'')"
    by (simp add: offline_browser_def)
  have un: "axios_post unhelpful_browser payments_url
                (requestBody unhelpful_browser example_cart example_address) = Inr (JObj [])
            \<and> \<not> (truthy (JObj []) \<and> (\<exists>u. get_prop (JObj []) ''redirectUrl'' = Inr u \<and> truthy u))"
    by (auto simp: unhelpful_browser_def)
  from place_order_failures_discarded [of redirecting_browser props_without_cart initial_state] m
  have 1: "logOrderDetailsAndNavigate redirecting_browser props_without_cart initial_state =
     (initial_state, [ConsoleError ''Missing order details'' []])"
    by (metis prod.collapse)
  from place_order_failures_discarded [of offline_browser example_props initial_state] p off
  have 2: "logOrderDetailsAndNavigate offline_browser example_props initial_state =
     (initial_state,
      [HttpPost payments_url (requestBody offline_browser example_cart example_address)])"
    by (metis prod.collapse)
  from place_order_failures_discarded [of unhelpful_browser example_props initial_state] p un
  have 3: "logOrderDetailsAndNavigate unhelpful_browser example_props initial_state =
     (initial_state,
      [HttpPost payments_url (requestBody unhelpful_browser example_cart example_address),
       ConsoleError ''Unexpected response structure:'' [JObj []]])"
    by (metis prod.collapse)
  from 1 2 3 show ?thesis by blast
qed


subsection \<open>Step navigation\<close>

lemma find_type_None: "(find (\<lambda>s. type s = ty) xs = None) = (\<forall>s\<in>set xs. type s \<noteq> ty)"
  by (induction xs) auto

lemma find_type_Some: "find (\<lambda>s. type s = ty) xs = Some step \<Longrightarrow> type step = ty"
  by (induction xs) (auto split: if_splits)

lemma navigateToStep_unchanged:
  assumes "(\<forall>s\<in>set (steps props). type s \<noteq> ty) \<or> activeStepType st = Some ty"
  shows "navigateToStep props st ty opts = (st, [])"
proof (cases "find (\<lambda>s. type s = ty) (steps props)")
  case None
  then show ?thesis by (simp add: navigateToStep_def)
next
  case (Some step)
  then have t: "type step = ty" by (rule find_type_Some)
  from Some have "\<not> (\<forall>s\<in>set (steps props). type s \<noteq> ty)"
    using find_type_None [of ty "steps props"] by simp
  with assms have "activeStepType st = Some ty" by blast
  with Some t show ?thesis by (simp add: navigateToStep_def)
qed

lemma navigateToStep_changed:
  assumes "\<exists>s\<in>set (steps props). type s = ty" "activeStepType st \<noteq> Some ty"
  shows "navigateToStep props st ty opts =
     (if wants_default opts then st \<lparr> defaultStepType := Some ty \<rparr>
      else st \<lparr> activeStepType := Some ty \<rparr>,
      case props_error props of None \<Rightarrow> [] | Some e \<Rightarrow> [ClearError e])"
proof -
  from assms(1) obtain step where f: "find (\<lambda>s. type s = ty) (steps props) = Some step"
    using find_type_None [of ty "steps props"] by fastforce
  then have "type step = ty" by (rule find_type_Some)
  with f assms(2) show ?thesis by (simp add: navigateToStep_def)
qed

text \<open>
  C5. \<open>navigateToStep(type, options)\<close>: if no step of \<open>props.steps\<close> has that type, or
  the active step type is already that type, the state is unchanged and \<open>clearError\<close> is
  not called. Otherwise \<open>defaultStepType\<close> (when \<open>options.isDefault\<close> is set) or
  \<open>activeStepType\<close> (when it is not) becomes that type, every other field of the state
  is unchanged, and \<open>clearError\<close> is called with the \<open>error\<close> prop when there is one.
\<close>

theorem navigateToStep_frame:
  "((\<forall>s\<in>set (steps props). type s \<noteq> ty) \<or> activeStepType st = Some ty
      \<longrightarrow> navigateToStep props st ty opts = (st, []))
   \<and> ((\<exists>s\<in>set (steps props). type s = ty) \<and> activeStepType st \<noteq> Some ty \<and> wants_default opts
      \<longrightarrow> fst (navigateToStep props st ty opts) = st \<lparr> defaultStepType := Some ty \<rparr>
        \<and> activeStepType (fst (navigateToStep props st ty opts)) = activeStepType st)
   \<and> ((\<exists>s\<in>set (steps props). type s = ty) \<and> activeStepType st \<noteq> Some ty \<and> \<not> wants_default opts
      \<longrightarrow> fst (navigateToStep props st ty opts) = st \<lparr> activeStepType := Some ty \<rparr>
        \<and> defaultStepType (fst (navigateToStep props st ty opts)) = defaultStepType st)
   \<and> ((\<exists>s\<in>set (steps props). type s = ty) \<and> activeStepType st \<noteq> Some ty
      \<longrightarrow> snd (navigateToStep props st ty opts) =
            (case props_error props of None \<Rightarrow> [] | Some e \<Rightarrow> [ClearError e]))"
  using navigateToStep_unchanged [of props ty st opts]
  by (auto simp: navigateToStep_changed)

theorem navigateToStep_frame_witness:
  "navigateToStep example_props initial_state Shipping example_nav_default =
     (initial_state \<lparr> defaultStepType := Some Shipping \<rparr>, [ClearError (Error ''stale session'')])
   \<and> navigateToStep example_props initial_state Shipping None =
     (initial_state \<lparr> activeStepType := Some Shipping \<rparr>, [ClearError (Error ''stale session'')])
   \<and> navigateToStep example_props initial_state Payment None = (initial_state, [])
   \<and> navigateToStep example_props (initial_state \<lparr> activeStepType := Some Shipping \<rparr>) Shipping None =
     (initial_state \<lparr> activeStepType := Some Shipping \<rparr>, [])"
proof -
  have s: "\<exists>s\<in>set (steps example_props). type s = Shipping"
    by (simp add: example_props_def example_steps_def)
  have n: "\<forall>s\<in>set (steps example_props). type s \<noteq> Payment"
    by (simp add: example_props_def example_steps_def)
  have a: "activeStepType initial_state \<noteq> Some Shipping"
    by (simp add: initial_state_def)
  have d: "wants_default example_nav_default" "\<not> wants_default None"
    by (simp_all add: wants_default_def example_nav_default_def)
  have e: "props_error example_props = Some (Error ''stale session'')"
    by (simp add: example_props_def)
  from navigateToStep_frame [of example_props Shipping initial_state example_nav_default] s a d(1) e
  have 1: "navigateToStep example_props initial_state Shipping example_nav_default =
     (initial_state \<lparr> defaultStepType := Some Shipping \<rparr>, [ClearError (Error ''stale session'')])"
    by (simp add: prod_eq_iff)
  from navigateToStep_frame [of example_props Shipping initial_state None] s a d(2) e
  have 2: "navigateToStep example_props initial_state Shipping None =
     (initial_state \<lparr> activeStepType := Some Shipping \<rparr>, [ClearError (Error ''stale session'')])"
    by (simp add: prod_eq_iff)
  from navigateToStep_frame [of example_props Payment initial_state None] n
  have 3: "navigateToStep example_props initial_state Payment None = (initial_state, [])"
    by blast
  from navigateToStep_frame [of example_props Shipping "initial_state \<lparr> activeStepType := Some Shipping \<rparr>" None]
  have 4: "navigateToStep example_props (initial_state \<lparr> activeStepType := Some Shipping \<rparr>) Shipping None =
     (initial_state \<lparr> activeStepType := Some Shipping \<rparr>, [])"
    by simp
  from 1 2 3 4 show ?thesis by blast
qed

lemma findIndex_none: "\<forall>x\<in>set xs. \<not> P x \<Longrightarrow> findIndex P xs = - 1"
  by (induction xs) (auto simp: Let_def)

lemma findIndex_first:
  "i < length xs \<Longrightarrow> P (xs ! i) \<Longrightarrow> \<forall>j<i. \<not> P (xs ! j) \<Longrightarrow> findIndex P xs = int i"
proof (induction xs arbitrary: i)
  case Nil
  then show ?case by simp
next
  case (Cons x xs)
  show ?case
  proof (cases i)
    case 0
    with Cons.prems show ?thesis by simp
  next
    case (Suc k)
    with Cons.prems have nx: "\<not> P x" by auto
    from Suc Cons.prems have "k < length xs" "P (xs ! k)" "\<forall>j<k. \<not> P (xs ! j)" by auto
    then have "findIndex P xs = int k" by (rule Cons.IH)
    with nx Suc show ?thesis by (simp add: Let_def)
  qed
qed

lemma navigateNext_none:
  "\<forall>s\<in>set (steps props). \<not> isActive s \<Longrightarrow> navigateToNextIncompleteStep props st opts = (st, [])"
  by (simp add: navigateToNextIncompleteStep_def findIndex_none)

lemma navigateNext_first:
  assumes "i < length (steps props)" "isActive (steps props ! i)" "\<forall>j<i. \<not> isActive (steps props ! j)"
  shows "navigateToNextIncompleteStep props st opts =
     (fst (navigateToStep props st (type (steps props ! i)) opts),
      TrackStepCompleted (type (steps props ! (if i = 0 then 0 else i - 1)))
        # snd (navigateToStep props st (type (steps props ! i)) opts))"
proof -
  have fi: "findIndex isActive (steps props) = int i"
    using assms by (rule findIndex_first)
  have m: "max (int i - 1) 0 = int (if i = 0 then 0 else i - 1)"
    by (cases i) simp_all
  have at: "at_index (steps props) (int i) = Some (steps props ! i)"
    using assms(1) by (simp add: at_index_def)
  have lt: "(if i = 0 then 0 else i - 1) < length (steps props)"
    using assms(1) by (cases i) simp_all
  have prev: "at_index (steps props) (max (int i - 1) 0) =
      Some (steps props ! (if i = 0 then 0 else i - 1))"
    unfolding m using lt by (simp add: at_index_def del: of_nat_diff)
  show ?thesis
    by (simp add: navigateToNextIncompleteStep_def fi at prev Let_def split_beta del: of_nat_diff)
qed

text \<open>
  C4, as stated, fails when the active step is the first of the list: no step precedes
  it, and \<open>trackStepCompleted\<close> is called with the type of the active step itself.
\<close>

theorem navigateNext_first_step_counterexample:
  "findIndex isActive (steps example_props) = 0
   \<and> navigateToNextIncompleteStep example_props initial_state None =
       (initial_state \<lparr> activeStepType := Some Customer \<rparr>,
        [TrackStepCompleted Customer, ClearError (Error ''stale session'')])"
  by (simp add: navigateToNextIncompleteStep_def navigateToStep_def example_props_def
      example_steps_def at_index_def wants_default_def initial_state_def)

text \<open>
  C4, amended. \<open>navigateToNextIncompleteStep\<close>: if no step of \<open>props.steps\<close> is active,
  the state is unchanged and nothing is tracked. Otherwise, with the first active step at
  index \<open>i\<close>, \<open>trackStepCompleted\<close> is called with the type of the step at index
  \<open>max (i - 1) 0\<close> (the step before the active one, or the active step itself when it
  is the first), and then the component navigates to the type of the active step, as
  \<open>navigateToStep\<close> does.
\<close>

theorem navigateNext_tracks_and_navigates:
  "((\<forall>s\<in>set (steps props). \<not> isActive s)
      \<longrightarrow> navigateToNextIncompleteStep props st opts = (st, []))
   \<and> (\<forall>i. i < length (steps props) \<and> isActive (steps props ! i)
            \<and> (\<forall>j<i. \<not> isActive (steps props ! j))
        \<longrightarrow> navigateToNextIncompleteStep props st opts =
              (fst (navigateToStep props st (type (steps props ! i)) opts),
               TrackStepCompleted (type (steps props ! (if i = 0 then 0 else i - 1)))
                 # snd (navigateToStep props st (type (steps props ! i)) opts)))"
  using navigateNext_none [of props st opts] navigateNext_first [of _ props st opts]
  by blast


theorem navigateNext_tracks_and_navigates_witness:
  "navigateToNextIncompleteStep props_none_active initial_state None = (initial_state, [])
   \<and> navigateToNextIncompleteStep props_second_active initial_state None =
       (initial_state \<lparr> activeStepType := Some Shipping \<rparr>,
        [TrackStepCompleted Customer, ClearError (Error ''stale session'')])
   \<and> navigateToNextIncompleteStep example_props initial_state None =
       (initial_state \<lparr> activeStepType := Some Customer \<rparr>,
        [TrackStepCompleted Customer, ClearError (Error ''stale session'')])"
proof -
  have n: "\<forall>s\<in>set (steps props_none_active). \<not> isActive s"
    by (simp add: props_none_active_def)
  have s: "1 < length (steps props_second_active) \<and> isActive (steps props_second_active ! 1)
           \<and> (\<forall>j<1. \<not> isActive (steps props_second_active ! j))"
    by (simp add: props_second_active_def)
  have f: "0 < length (steps example_props) \<and> isActive (steps example_props ! 0)
           \<and> (\<forall>j<0. \<not> isActive (steps example_props ! j))"
    by (simp add: example_props_def example_steps_def)
  from navigateNext_tracks_and_navigates [of props_none_active initial_state None] n
  have 1: "navigateToNextIncompleteStep props_none_active initial_state None = (initial_state, [])"
    by blast
  from navigateNext_tracks_and_navigates [of props_second_active initial_state None] s
  have "navigateToNextIncompleteStep props_second_active initial_state None =
          (fst (navigateToStep props_second_active initial_state (type (steps props_second_active ! 1)) None),
           TrackStepCompleted (type (steps props_second_active ! (if (1::nat) = 0 then 0 else 1 - 1)))
             # snd (navigateToStep props_second_active initial_state (type (steps props_second_active ! 1)) None))"
    by blast
  then have 2: "navigateToNextIncompleteStep props_second_active initial_state None =
       (initial_state \<lparr> activeStepType := Some Shipping \<rparr>,
        [TrackStepCompleted Customer, ClearError (Error ''stale session'')])"
    by (simp add: props_second_active_def example_props_def navigateToStep_def wants_default_def
        initial_state_def)
  from navigateNext_tracks_and_navigates [of example_props initial_state None] f
  have "navigateToNextIncompleteStep example_props initial_state None =
          (fst (navigateToStep example_props initial_state (type (steps example_props ! 0)) None),
           TrackStepCompleted (type (steps example_props ! (if (0::nat) = 0 then 0 else 0 - 1)))
             # snd (navigateToStep example_props initial_state (type (steps example_props ! 0)) None))"
    by blast
  then have 3: "navigateToNextIncompleteStep example_props initial_state None =
       (initial_state \<lparr> activeStepType := Some Customer \<rparr>,
        [TrackStepCompleted Customer, ClearError (Error ''stale session'')])"
    by (simp add: example_props_def example_steps_def navigateToStep_def wants_default_def
        initial_state_def)
  from 1 2 3 show ?thesis by blast
qed

end
